theory Spec2Isabelle
  imports Complex_Main
begin

section \<open>Data: dates, amounts and log frames\<close>

text \<open>
  A \<^verbatim>\<open>datetime.date\<close> is modelled by its day number (its proleptic ordinal), so that
  \<^verbatim>\<open>d - dt.timedelta(days=k)\<close> is \<open>d - k\<close> and the order of dates is the order of
  integers. The value of \<^verbatim>\<open>dt.date.today()\<close> is read from the clock; every function that
  reads it takes it as the parameter \<open>today\<close>. The calendar range of the library types is
  not part of the model: all dates are taken well inside it.

  Amounts and targets are Python floats (\<^verbatim>\<open>float(amount)\<close>, \<^verbatim>\<open>float(target_per_day)\<close>);
  they are idealised as real numbers, and the one non-number that the analysed code can
  produce, the NaN of a standard deviation over a single value, is kept as a value of its
  own (\<open>pyfloat\<close> below).

  A log frame is the \<^verbatim>\<open>DataFrame\<close> with the columns \<^verbatim>\<open>date\<close> and \<^verbatim>\<open>amount\<close> that
  \<^verbatim>\<open>get_logs\<close> returns: a list of rows in the order of the frame.
\<close>

type_synonym date = int

type_synonym frame = "(date \<times> real) list"

subsection \<open>The pandas operations the source calls\<close>

text \<open>
  \<^verbatim>\<open>df.groupby("date")["amount"].sum()\<close>: one entry per distinct date, the dates in
  ascending order, each with the sum of the amounts of its rows.
\<close>

definition daily_total :: "frame \<Rightarrow> date \<Rightarrow> real" where
  "daily_total df d = sum_list (map snd (filter (\<lambda>r. fst r = d) df))"

definition groupby_sum :: "frame \<Rightarrow> (date \<times> real) list" where
  "groupby_sum df = map (\<lambda>d. (d, daily_total df d)) (sort (remdups (map fst df)))"

text \<open>\<^verbatim>\<open>Series.mean()\<close> of a non-empty series of numbers.\<close>

definition mean :: "real list \<Rightarrow> real" where
  "mean xs = sum_list xs / real (length xs)"

section \<open>Habit: the streak\<close>

text \<open>
  The class \<^verbatim>\<open>Habit\<close> holds a name, the target per day and the private counter
  \<^verbatim>\<open>__streak_days\<close>, which \<^verbatim>\<open>__init__\<close> sets to 0.
\<close>

record habit =
  habit_name :: string
  target_per_day :: real
  streak_days :: nat

definition Habit_init :: "string \<Rightarrow> real \<Rightarrow> habit" where
  "Habit_init nm tgt = \<lparr>habit_name = nm, target_per_day = tgt, streak_days = 0\<rparr>"

text \<open>The property \<^verbatim>\<open>target\<close> of the class.\<close>

definition target :: "habit \<Rightarrow> real" where
  "target h = target_per_day h"

text \<open>
  Line 34 of \<^verbatim>\<open>_update_streak\<close>: the series \<^verbatim>\<open>met\<close>, indexed by the dates that have
  rows, true where the day's sum reaches the target.
\<close>

definition met_series :: "real \<Rightarrow> frame \<Rightarrow> (date \<times> bool) list" where
  "met_series tg df = map (\<lambda>(d, x). (d, x \<ge> tg)) (groupby_sum df)"

text \<open>
  The loop \<^verbatim>\<open>while d in met.index and met.loc[d]: streak += 1; d = d - 1 day\<close>, used twice
  by the source (from today, and from yesterday). It ends because each round leaves
  fewer indexed dates at or before \<open>d\<close>.
\<close>

function walk :: "(date \<times> bool) list \<Rightarrow> date \<Rightarrow> nat \<Rightarrow> nat" where
  "walk met d streak =
     (if map_of met d = Some True then walk met (d - 1) (streak + 1) else streak)"
  by pat_completeness auto

lemma filter_le_pred_shorter:
  fixes d :: int
  assumes "(d, b) \<in> set met"
  shows "length (filter (\<lambda>r. fst r \<le> d - 1) met) < length (filter (\<lambda>r. fst r \<le> d) met)"
  using assms
proof (induction met)
  case Nil
  then show ?case by simp
next
  case (Cons r met)
  have le: "length (filter (\<lambda>r. fst r \<le> d - 1) met) \<le> length (filter (\<lambda>r. fst r \<le> d) met)"
    by (induction met) auto
  show ?case
  proof (cases "r = (d, b)")
    case True
    then show ?thesis using le by simp
  next
    case False
    with Cons.prems have "(d, b) \<in> set met" by simp
    from Cons.IH [OF this] show ?thesis by simp
  qed
qed

termination walk
proof (relation "measure (\<lambda>(met, d, streak). length (filter (\<lambda>r. fst r \<le> d) met))")
  show "wf (measure (\<lambda>(met, d, streak). length (filter (\<lambda>r. fst r \<le> d) met)))"
    by simp
next
  fix met :: "(date \<times> bool) list" and d :: date and streak :: nat
  assume "map_of met d = Some True"
  then have "(d, True) \<in> set met"
    by (rule map_of_SomeD)
  then show "((met, d - 1, streak + 1), (met, d, streak))
      \<in> measure (\<lambda>(met, d, streak). length (filter (\<lambda>r. fst r \<le> d) met))"
    using filter_le_pred_shorter [of d True met] by simp
qed

declare walk.simps [simp del]

text \<open>
  \<^verbatim>\<open>Habit._update_streak\<close>, with its early return on an empty frame, and
  \<^verbatim>\<open>Habit.get_streak\<close>.
\<close>

definition update_streak :: "habit \<Rightarrow> date \<Rightarrow> frame \<Rightarrow> habit" where
  "update_streak h today logs_df =
     (if logs_df = [] then h\<lparr>streak_days := 0\<rparr>
      else
        let met = met_series (target h) logs_df;
            streak = walk met today 0;
            streak = (if streak = 0 then walk met (today - 1) streak else streak)
        in h\<lparr>streak_days := streak\<rparr>)"

definition get_streak :: "habit \<Rightarrow> nat" where
  "get_streak h = streak_days h"

text \<open>
  The words of the specification: a date is met when it has an entry and its daily total
  reaches the target.
\<close>

definition day_met :: "real \<Rightarrow> frame \<Rightarrow> date \<Rightarrow> bool" where
  "day_met tg df d = (d \<in> fst ` set df \<and> daily_total df d \<ge> tg)"

section \<open>The recommendations of the three kinds\<close>

text \<open>
  Each \<^verbatim>\<open>recommendation\<close> returns one formatted string: the metric it computed, printed
  to one or two decimals, and one of seven fixed sentences. The model returns the metric
  and the sentence chosen:
  \<^item> \<open>RestDay\<close>: "Great pace, consider adding a rest day";
  \<^item> \<open>Increase\<close>: "Try 10-15% incremental increase next week";
  \<^item> \<open>Pomodoro\<close>: "Lock in a Pomodoro block (25/5) at a fixed hour.";
  \<^item> \<open>SpacedRepetition\<close>: "Level up: add spaced-repetition review.";
  \<^item> \<open>NoRecentData\<close>: "No recent data. Aim for a consistent bedtime window (+-30 min).";
  \<^item> \<open>ConsistencyGood\<close>: "Bedtime consistency looks good, maintain routine.";
  \<^item> \<open>LargeVariance\<close>: "Large variance, set a fixed screen-off time 1 hour before bed.".
\<close>

datatype tip =
  RestDay | Increase | Pomodoro | SpacedRepetition | NoRecentData | ConsistencyGood | LargeVariance

text \<open>
  The first line of all three methods:
  \<^verbatim>\<open>recent_df[recent_df["date"] >= (dt.date.today() - dt.timedelta(days=6))]\<close>.
  The filter has a lower bound only.
\<close>

definition last7 :: "date \<Rightarrow> frame \<Rightarrow> frame" where
  "last7 today recent_df = filter (\<lambda>r. fst r \<ge> today - 6) recent_df"

text \<open>\<^verbatim>\<open>ExerciseHabit.recommendation\<close>: the mean is taken over the column of amounts.\<close>

definition ExerciseHabit_recommendation :: "habit \<Rightarrow> date \<Rightarrow> frame \<Rightarrow> real \<times> tip" where
  "ExerciseHabit_recommendation h today recent_df =
     (let l7 = last7 today recent_df;
          avg = (if l7 \<noteq> [] then mean (map snd l7) else 0);
          t = (if avg \<ge> target h then RestDay else Increase)
      in (avg, t))"

text \<open>
  \<^verbatim>\<open>StudyHabit.recommendation\<close>: \<^verbatim>\<open>.ge(self.target)\<close> turns the series of daily sums
  into booleans, and the mean of booleans counts \<^verbatim>\<open>True\<close> as 1 and \<^verbatim>\<open>False\<close> as 0.
\<close>

definition StudyHabit_recommendation :: "habit \<Rightarrow> date \<Rightarrow> frame \<Rightarrow> real \<times> tip" where
  "StudyHabit_recommendation h today recent_df =
     (let l7 = last7 today recent_df;
          consistency =
            (if l7 \<noteq> []
             then mean (map (\<lambda>(d, x). if x \<ge> target h then 1 else 0) (groupby_sum l7))
             else 0);
          t = (if consistency < 0.6 then Pomodoro else SpacedRepetition)
      in (consistency, t))"

text \<open>
  \<^verbatim>\<open>Series.std()\<close> is the sample standard deviation (divisor \<open>n - 1\<close>); over fewer than
  two values pandas returns NaN. Every comparison with NaN is false.
\<close>

datatype pyfloat = NaN | Num real

definition std :: "real list \<Rightarrow> pyfloat" where
  "std xs =
     (if length xs < 2 then NaN
      else Num (sqrt (sum_list (map (\<lambda>x. (x - mean xs)\<^sup>2) xs) / real (length xs - 1))))"

fun pyfloat_le :: "pyfloat \<Rightarrow> real \<Rightarrow> bool" where
  "pyfloat_le NaN y = False"
| "pyfloat_le (Num x) y = (x \<le> y)"

text \<open>
  \<^verbatim>\<open>SleepHabit.recommendation\<close>: \<^verbatim>\<open>variance\<close> is Python's \<^verbatim>\<open>None\<close> on an empty window
  and the result of \<^verbatim>\<open>std()\<close> otherwise.
\<close>

definition SleepHabit_recommendation :: "habit \<Rightarrow> date \<Rightarrow> frame \<Rightarrow> pyfloat option \<times> tip" where
  "SleepHabit_recommendation h today recent_df =
     (let l7 = last7 today recent_df;
          variance = (if l7 \<noteq> [] then Some (std (map snd l7)) else None);
          msg = (case variance of
                   None \<Rightarrow> NoRecentData
                 | Some v \<Rightarrow> if pyfloat_le v 0.75 then ConsistencyGood else LargeVariance)
      in (variance, msg))"

subsection \<open>The recommendations as the specification words them\<close>

text \<open>
  The trailing window of the specification: the seven calendar days that end today.
\<close>

definition window_days :: "date \<Rightarrow> date list" where
  "window_days today = map (\<lambda>i. today - int i) (rev [0..<7])"

definition logged_days :: "date \<Rightarrow> frame \<Rightarrow> date list" where
  "logged_days today df = filter (\<lambda>d. d \<in> fst ` set df) (window_days today)"

text \<open>
  Study: the fraction of the seven calendar days whose daily total meets the target, a day
  with no entry counting as not met; below 0.6 the fixed-time focus block.
\<close>

definition spec_study_recommendation :: "real \<Rightarrow> date \<Rightarrow> frame \<Rightarrow> real \<times> tip" where
  "spec_study_recommendation tg today df =
     (let fraction = real (length (filter (day_met tg df) (window_days today))) / 7
      in (fraction, if fraction < 0.6 then Pomodoro else SpacedRepetition))"

text \<open>
  Exercise: the mean of the daily totals of the days of the window that have entries, 0
  when there is none; at or above the target the rest day.
\<close>

definition spec_exercise_recommendation :: "real \<Rightarrow> date \<Rightarrow> frame \<Rightarrow> real \<times> tip" where
  "spec_exercise_recommendation tg today df =
     (let ds = logged_days today df;
          m = (if ds = [] then 0 else mean (map (daily_total df) ds))
      in (m, if m \<ge> tg then RestDay else Increase))"

text \<open>
  Sleep: no data when zero or one day of the window has entries; otherwise the sample
  standard deviation of the daily totals of the days with entries, compared with 0.75.
\<close>

definition spec_sleep_recommendation :: "date \<Rightarrow> frame \<Rightarrow> tip" where
  "spec_sleep_recommendation today df =
     (let ds = logged_days today df
      in if length ds \<le> 1 then NoRecentData
         else if pyfloat_le (std (map (daily_total df) ds)) 0.75 then ConsistencyGood
         else LargeVariance)"

section \<open>The two repositories\<close>

text \<open>
  A habit is stored with the same four fields by both repositories: a row of the table
  \<^verbatim>\<open>habits\<close>, and the dictionary \<^verbatim>\<open>{"id", "name", "type", "target"}\<close> of \<^verbatim>\<open>MemoryRepo\<close>.
\<close>

record habit_row =
  h_id :: int
  h_name :: string
  h_type :: string
  h_target :: real

subsection \<open>SQLiteRepo\<close>

text \<open>
  The database file holds the two tables of \<^verbatim>\<open>_init_db\<close>, each a list of rows in the
  order of their row ids, and for each table the counter that \<^verbatim>\<open>AUTOINCREMENT\<close> keeps
  (the largest row id the table ever held). Every method opens its own connection and
  commits on leaving the \<^verbatim>\<open>with\<close> block, so a method is a function from the file's
  content to its new content.

  A connection opened by \<^verbatim>\<open>sqlite3.connect\<close> has SQLite's default setting
  \<^verbatim>\<open>PRAGMA foreign_keys = OFF\<close>, and the source never changes it: the clause
  \<^verbatim>\<open>FOREIGN KEY(habit_id) REFERENCES habits(id)\<close> is recorded in the schema and not
  enforced. The columns are \<^verbatim>\<open>NOT NULL\<close> and the methods pass strings and floats, so
  no statement of the source violates a constraint, and no method has a failing branch.
  The file itself (disk errors, the 64-bit range of row ids) is not modelled.
\<close>

record log_row =
  l_id :: int
  l_habit_id :: int
  l_date :: date
  l_amount :: real

record sqlite_db =
  habits_tbl :: "habit_row list"
  habits_seq :: int
  logs_tbl :: "log_row list"
  logs_seq :: int

text \<open>A new file after \<^verbatim>\<open>_init_db\<close>.\<close>

definition SQLiteRepo_init :: sqlite_db where
  "SQLiteRepo_init = \<lparr>habits_tbl = [], habits_seq = 0, logs_tbl = [], logs_seq = 0\<rparr>"

text \<open>
  The row id of an insert into an \<^verbatim>\<open>AUTOINCREMENT\<close> table: one more than the largest
  of the table's counter and the row ids present.
\<close>

definition next_rowid :: "int \<Rightarrow> int list \<Rightarrow> int" where
  "next_rowid seq ids = fold max ids seq + 1"

definition SQLiteRepo_add_habit ::
    "string \<Rightarrow> string \<Rightarrow> real \<Rightarrow> sqlite_db \<Rightarrow> int \<times> sqlite_db" where
  "SQLiteRepo_add_habit nm ty tgt db =
     (let lastrowid = next_rowid (habits_seq db) (map h_id (habits_tbl db))
      in (lastrowid,
          db\<lparr>habits_tbl := habits_tbl db @
                 [\<lparr>h_id = lastrowid, h_name = nm, h_type = ty, h_target = tgt\<rparr>],
             habits_seq := lastrowid\<rparr>))"

text \<open>\<^verbatim>\<open>delete_habit\<close>: the two \<^verbatim>\<open>DELETE\<close> statements, in the source's order.\<close>

definition SQLiteRepo_delete_habit :: "int \<Rightarrow> sqlite_db \<Rightarrow> sqlite_db" where
  "SQLiteRepo_delete_habit habit_id db =
     (let db1 = db\<lparr>logs_tbl := filter (\<lambda>r. l_habit_id r \<noteq> habit_id) (logs_tbl db)\<rparr>
      in db1\<lparr>habits_tbl := filter (\<lambda>r. h_id r \<noteq> habit_id) (habits_tbl db1)\<rparr>)"

definition SQLiteRepo_add_log :: "int \<Rightarrow> date \<Rightarrow> real \<Rightarrow> sqlite_db \<Rightarrow> sqlite_db" where
  "SQLiteRepo_add_log habit_id d amount db =
     (let rowid = next_rowid (logs_seq db) (map l_id (logs_tbl db))
      in db\<lparr>logs_tbl := logs_tbl db @
                [\<lparr>l_id = rowid, l_habit_id = habit_id, l_date = d, l_amount = amount\<rparr>],
            logs_seq := rowid\<rparr>)"

text \<open>
  \<^verbatim>\<open>get_logs\<close>: \<^verbatim>\<open>SELECT date, amount FROM logs WHERE habit_id=? ORDER BY date ASC\<close>.
  The dates are stored as ISO text of fixed width, whose order is the order of the dates;
  rows of one date are kept in the order of their row ids.
\<close>

definition SQLiteRepo_get_logs :: "int \<Rightarrow> sqlite_db \<Rightarrow> frame" where
  "SQLiteRepo_get_logs habit_id db =
     map (\<lambda>r. (l_date r, l_amount r))
       (sort_key l_date (filter (\<lambda>r. l_habit_id r = habit_id) (logs_tbl db)))"

subsection \<open>MemoryRepo\<close>

text \<open>
  The three fields \<^verbatim>\<open>_habits\<close>, \<^verbatim>\<open>_logs\<close> and \<^verbatim>\<open>_next_id\<close>; the dictionaries are
  maps. None of the dictionary calls of the methods raises.
\<close>

record memory_repo =
  mr_habits :: "int \<rightharpoonup> habit_row"
  mr_logs :: "int \<rightharpoonup> frame"
  mr_next_id :: int

definition MemoryRepo_init :: memory_repo where
  "MemoryRepo_init = \<lparr>mr_habits = Map.empty, mr_logs = Map.empty, mr_next_id = 1\<rparr>"

definition MemoryRepo_add_habit ::
    "string \<Rightarrow> string \<Rightarrow> real \<Rightarrow> memory_repo \<Rightarrow> int \<times> memory_repo" where
  "MemoryRepo_add_habit nm ty tgt s =
     (let hid = mr_next_id s
      in (hid,
          s\<lparr>mr_next_id := hid + 1,
            mr_habits := (mr_habits s)
               (hid \<mapsto> \<lparr>h_id = hid, h_name = nm, h_type = ty, h_target = tgt\<rparr>),
            mr_logs := (mr_logs s)(hid \<mapsto> [])\<rparr>))"

text \<open>\<^verbatim>\<open>delete_habit\<close>: \<^verbatim>\<open>pop(habit_id, None)\<close> on both dictionaries.\<close>

definition MemoryRepo_delete_habit :: "int \<Rightarrow> memory_repo \<Rightarrow> memory_repo" where
  "MemoryRepo_delete_habit habit_id s =
     s\<lparr>mr_habits := (mr_habits s)(habit_id := None),
       mr_logs := (mr_logs s)(habit_id := None)\<rparr>"

text \<open>
  \<^verbatim>\<open>add_log\<close>: \<^verbatim>\<open>setdefault(habit_id, [])\<close> yields the list stored under the id, storing
  an empty one first when there is none, and \<^verbatim>\<open>append\<close> extends that list.
\<close>

definition MemoryRepo_add_log :: "int \<Rightarrow> date \<Rightarrow> real \<Rightarrow> memory_repo \<Rightarrow> memory_repo" where
  "MemoryRepo_add_log habit_id d amount s =
     s\<lparr>mr_logs := (mr_logs s)
          (habit_id \<mapsto> (case mr_logs s habit_id of None \<Rightarrow> [] | Some rows \<Rightarrow> rows) @ [(d, amount)])\<rparr>"

text \<open>\<^verbatim>\<open>get_logs\<close>: the rows as stored, or the empty frame.\<close>

definition MemoryRepo_get_logs :: "int \<Rightarrow> memory_repo \<Rightarrow> frame" where
  "MemoryRepo_get_logs habit_id s =
     (let rows = (case mr_logs s habit_id of None \<Rightarrow> [] | Some rows \<Rightarrow> rows)
      in if rows = [] then [] else rows)"

text \<open>The states a \<^verbatim>\<open>MemoryRepo\<close> object can be in: those its methods produce.\<close>

inductive MemoryRepo_reachable :: "memory_repo \<Rightarrow> bool" where
  init: "MemoryRepo_reachable MemoryRepo_init"
| add_habit: "MemoryRepo_reachable s \<Longrightarrow> MemoryRepo_reachable (snd (MemoryRepo_add_habit nm ty tgt s))"
| delete_habit: "MemoryRepo_reachable s \<Longrightarrow> MemoryRepo_reachable (MemoryRepo_delete_habit habit_id s)"
| add_log: "MemoryRepo_reachable s \<Longrightarrow> MemoryRepo_reachable (MemoryRepo_add_log habit_id d amount s)"

section \<open>The streak\<close>

text \<open>The series \<open>met\<close> of the source holds exactly the met days of the specification.\<close>

lemma map_of_keyed:
  "map_of (map (\<lambda>k. (k, f k)) ks) d = (if d \<in> set ks then Some (f d) else None)"
  by (induction ks) auto

lemma met_series_lookup:
  "map_of (met_series tg df) d =
     (if d \<in> fst ` set df then Some (daily_total df d \<ge> tg) else None)"
proof -
  have "met_series tg df = map (\<lambda>k. (k, daily_total df k \<ge> tg)) (sort (remdups (map fst df)))"
    by (simp add: met_series_def groupby_sum_def)
  then show ?thesis
    by (simp add: map_of_keyed)
qed

lemma met_series_met:
  "(map_of (met_series tg df) d = Some True) = day_met tg df d"
  by (simp add: met_series_lookup day_met_def)

lemma walk_stop: "map_of met d \<noteq> Some True \<Longrightarrow> walk met d s = s"
  by (simp add: walk.simps)

lemma walk_run:
  assumes "\<forall>i<n. map_of met (d - int i) = Some True"
      and "map_of met (d - int n) \<noteq> Some True"
  shows "walk met d s = s + n"
  using assms
proof (induction n arbitrary: d s)
  case 0
  then show ?case by (simp add: walk.simps)
next
  case (Suc n)
  from Suc.prems(1) have here: "map_of met d = Some True"
    by (metis of_nat_0 diff_zero zero_less_Suc)
  have "\<forall>i<n. map_of met (d - 1 - int i) = Some True"
  proof (intro allI impI)
    fix i assume "i < n"
    then have "map_of met (d - int (Suc i)) = Some True"
      using Suc.prems(1) by (meson Suc_mono)
    then show "map_of met (d - 1 - int i) = Some True"
      by (simp add: algebra_simps)
  qed
  moreover have "map_of met (d - 1 - int n) \<noteq> Some True"
    using Suc.prems(2) by (simp add: algebra_simps)
  ultimately have "walk met (d - 1) (s + 1) = s + 1 + n"
    by (rule Suc.IH)
  with here show ?case
    by (subst walk.simps) simp
qed

text \<open>
  Claim C1. When today's daily total does not meet the target, or today has no entry, the
  streak that \<^verbatim>\<open>_update_streak\<close> stores and \<^verbatim>\<open>get_streak\<close> returns is the number of
  consecutive met days counted back from yesterday: if the \<open>n\<close> days before today are
  all met and the day before them is not met (or has no entry), the streak is \<open>n\<close>. With
  \<open>n = 3\<close> this is the carry-over case: D-1, D-2 and D-3 met, D-4 not, streak 3.
\<close>

theorem streak_carry_over:
  assumes "\<not> day_met (target h) logs_df today"
      and "\<forall>i<n. day_met (target h) logs_df (today - 1 - int i)"
      and "\<not> day_met (target h) logs_df (today - 1 - int n)"
  shows "get_streak (update_streak h today logs_df) = n"
proof (cases "logs_df = []")
  case True
  have "n = 0"
  proof (rule ccontr)
    assume "n \<noteq> 0"
    then have "day_met (target h) logs_df (today - 1 - int 0)"
      using assms(2) by blast
    with True show False by (simp add: day_met_def)
  qed
  with True show ?thesis
    by (simp add: update_streak_def get_streak_def)
next
  case False
  let ?met = "met_series (target h) logs_df"
  have first: "walk ?met today 0 = 0"
    using assms(1) by (simp add: walk_stop met_series_met)
  have second: "walk ?met (today - 1) 0 = 0 + n"
    using assms(2,3) by (intro walk_run) (simp_all add: met_series_met)
  from False first second show ?thesis
    by (simp add: update_streak_def get_streak_def Let_def)
qed

text \<open>
  The carry-over case on a concrete frame: day 100 is today with 5 of 30, the days 99, 98
  (two entries, 10 and 25) and 97 are met, day 96 is not.
\<close>

theorem streak_carry_over_witness:
  "\<not> day_met 30 [(96, 10), (97, 30), (98, 10), (98, 25), (99, 40), (100, 5)] 100
   \<and> day_met 30 [(96, 10), (97, 30), (98, 10), (98, 25), (99, 40), (100, 5)] 99
   \<and> day_met 30 [(96, 10), (97, 30), (98, 10), (98, 25), (99, 40), (100, 5)] 98
   \<and> day_met 30 [(96, 10), (97, 30), (98, 10), (98, 25), (99, 40), (100, 5)] 97
   \<and> \<not> day_met 30 [(96, 10), (97, 30), (98, 10), (98, 25), (99, 40), (100, 5)] 96
   \<and> get_streak (update_streak (Habit_init ''Morning Run'' 30) 100
        [(96, 10), (97, 30), (98, 10), (98, 25), (99, 40), (100, 5)]) = 3"
proof -
  let ?logs = "[(96, 10), (97, 30), (98, 10), (98, 25), (99, 40), (100, 5)] :: frame"
  let ?h = "Habit_init ''Morning Run'' 30"
  have tg: "target ?h = 30" by (simp add: Habit_init_def target_def)
  have d100: "\<not> day_met 30 ?logs 100" by (simp add: day_met_def daily_total_def)
  have d99: "day_met 30 ?logs 99" by (simp add: day_met_def daily_total_def)
  have d98: "day_met 30 ?logs 98" by (simp add: day_met_def daily_total_def)
  have d97: "day_met 30 ?logs 97" by (simp add: day_met_def daily_total_def)
  have d96: "\<not> day_met 30 ?logs 96" by (simp add: day_met_def daily_total_def)
  have run: "\<forall>i<3. day_met (target ?h) ?logs (100 - 1 - int i)"
  proof (intro allI impI)
    fix i :: nat assume "i < 3"
    then consider "i = 0" | "i = 1" | "i = 2" by linarith
    then show "day_met (target ?h) ?logs (100 - 1 - int i)"
      using d99 d98 d97 by cases (simp_all add: tg)
  qed
  have "get_streak (update_streak ?h 100 ?logs) = 3"
    using streak_carry_over [of ?h ?logs 100 3] d100 run d96 by (simp add: tg)
  with d100 d99 d98 d97 d96 show ?thesis by blast
qed

section \<open>The recommendations against the specification\<close>

lemma window_100: "window_days 100 = [94, 95, 96, 97, 98, 99, 100]"
  by (simp add: window_days_def upt_rec)

text \<open>
  Claim C2. The specification takes the study consistency as a fraction of all seven
  calendar days of the window, a day with no entry counting as not met. The source takes
  the mean over the dates that have rows. With one entry, today, that meets the target,
  the source computes 1 and selects the spaced-repetition sentence, where the fraction of
  the specification is 1/7 and selects the focus block.
\<close>

theorem StudyHabit_fraction_of_logged_days:
  "StudyHabit_recommendation (Habit_init ''Reading'' 60) 100 [(100, 60)] = (1, SpacedRepetition)
   \<and> spec_study_recommendation 60 100 [(100, 60)] = (1 / 7, Pomodoro)"
proof -
  have code: "StudyHabit_recommendation (Habit_init ''Reading'' 60) 100 [(100, 60)]
      = (1, SpacedRepetition)"
    by (simp add: StudyHabit_recommendation_def last7_def groupby_sum_def daily_total_def
        mean_def target_def Habit_init_def)
  have "filter (day_met 60 [(100, 60)]) (window_days 100) = [100]"
    by (simp add: window_100 day_met_def daily_total_def)
  then have spec: "spec_study_recommendation 60 100 [(100, 60)] = (1 / 7, Pomodoro)"
    by (simp add: spec_study_recommendation_def)
  from code spec show ?thesis by simp
qed

text \<open>
  Claim C3. The specification takes the exercise metric as the mean of the daily totals,
  the entries of one date summed first. The source takes the mean of the entries. With
  two entries of 10 and 25 today and a target of 30, the source computes 17.5 and selects
  the incremental increase, where the daily total is 35 and the specification selects the
  rest day.
\<close>

theorem ExerciseHabit_mean_over_entries:
  "ExerciseHabit_recommendation (Habit_init ''Morning Run'' 30) 100 [(100, 10), (100, 25)]
     = (35 / 2, Increase)
   \<and> spec_exercise_recommendation 30 100 [(100, 10), (100, 25)] = (35, RestDay)"
proof -
  have code: "ExerciseHabit_recommendation (Habit_init ''Morning Run'' 30) 100 [(100, 10), (100, 25)]
     = (35 / 2, Increase)"
    by (simp add: ExerciseHabit_recommendation_def last7_def mean_def target_def Habit_init_def)
  have "logged_days 100 [(100, 10), (100, 25)] = [100]"
    by (simp add: logged_days_def window_100)
  then have spec: "spec_exercise_recommendation 30 100 [(100, 10), (100, 25)] = (35, RestDay)"
    by (simp add: spec_exercise_recommendation_def mean_def daily_total_def)
  from code spec show ?thesis by simp
qed

text \<open>
  Claim C4. The specification reports no data when zero or one day of the window has
  entries. The source tests for \<^verbatim>\<open>None\<close> only, which an empty window gives; with a single
  entry \<^verbatim>\<open>std()\<close> is NaN, the comparison \<^verbatim>\<open>variance <= 0.75\<close> is false, and the source
  selects the large-variance sentence.
\<close>

theorem SleepHabit_single_entry:
  "SleepHabit_recommendation (Habit_init ''Sleep'' 8) 100 [(100, 8)] = (Some NaN, LargeVariance)
   \<and> spec_sleep_recommendation 100 [(100, 8)] = NoRecentData"
proof -
  have code: "SleepHabit_recommendation (Habit_init ''Sleep'' 8) 100 [(100, 8)]
      = (Some NaN, LargeVariance)"
    by (simp add: SleepHabit_recommendation_def last7_def std_def)
  have "logged_days 100 [(100, 8)] = [100]"
    by (simp add: logged_days_def window_100)
  then have spec: "spec_sleep_recommendation 100 [(100, 8)] = NoRecentData"
    by (simp add: spec_sleep_recommendation_def)
  from code spec show ?thesis by simp
qed

section \<open>The repositories against the specification\<close>

subsection \<open>Row ids, reachable states and the order of the rows returned\<close>

lemma MemoryRepo_get_logs_rows:
  "MemoryRepo_get_logs habit_id s = (case mr_logs s habit_id of None \<Rightarrow> [] | Some rows \<Rightarrow> rows)"
  by (simp add: MemoryRepo_get_logs_def Let_def)

lemma fold_max_ge_start: "(seq :: int) \<le> fold max ids seq"
proof (induction ids arbitrary: seq)
  case Nil
  show ?case by simp
next
  case (Cons x ids)
  have "seq \<le> max x seq" by simp
  also have "\<dots> \<le> fold max ids (max x seq)" by (rule Cons.IH)
  finally show ?case by simp
qed

lemma fold_max_ge_member: "(x :: int) \<in> set ids \<Longrightarrow> x \<le> fold max ids seq"
proof (induction ids arbitrary: seq)
  case Nil
  then show ?case by simp
next
  case (Cons y ids)
  show ?case
  proof (cases "x = y")
    case True
    have "x \<le> max y seq" using True by simp
    also have "\<dots> \<le> fold max ids (max y seq)" by (rule fold_max_ge_start)
    finally show ?thesis by simp
  next
    case False
    with Cons.prems have "x \<in> set ids" by simp
    then show ?thesis using Cons.IH by simp
  qed
qed

lemma next_rowid_fresh: "next_rowid seq ids \<notin> set ids"
proof
  assume "next_rowid seq ids \<in> set ids"
  then have "next_rowid seq ids \<le> fold max ids seq" by (rule fold_max_ge_member)
  then show False by (simp add: next_rowid_def)
qed

lemma next_rowid_above_seq: "seq < next_rowid seq ids"
  using fold_max_ge_start [of seq ids] by (simp add: next_rowid_def)

lemma MemoryRepo_ids_below_next:
  "MemoryRepo_reachable s \<Longrightarrow> mr_habits s k = Some r \<Longrightarrow> k < mr_next_id s"
proof (induction arbitrary: k r rule: MemoryRepo_reachable.induct)
  case init
  then show ?case by (simp add: MemoryRepo_init_def)
next
  case (add_habit s nm ty tgt)
  then show ?case
    by (fastforce simp: MemoryRepo_add_habit_def Let_def split: if_splits)
next
  case (delete_habit s habit_id)
  then show ?case
    by (auto simp: MemoryRepo_delete_habit_def split: if_splits)
next
  case (add_log s habit_id d amount)
  then show ?case
    by (simp add: MemoryRepo_add_log_def)
qed

lemma SQLiteRepo_get_logs_sorted: "sorted (map fst (SQLiteRepo_get_logs habit_id db))"
proof -
  have "map fst (SQLiteRepo_get_logs habit_id db)
      = map l_date (sort_key l_date (filter (\<lambda>r. l_habit_id r = habit_id) (logs_tbl db)))"
    by (simp add: SQLiteRepo_get_logs_def comp_def)
  then show ?thesis by simp
qed

lemma SQLiteRepo_get_logs_all:
  "set (SQLiteRepo_get_logs habit_id db)
     = (\<lambda>r. (l_date r, l_amount r)) ` {r \<in> set (logs_tbl db). l_habit_id r = habit_id}"
  by (simp add: SQLiteRepo_get_logs_def)

text \<open>
  With the foreign key not enforced, \<^verbatim>\<open>SQLiteRepo.add_log\<close> stores a row whose
  \<^verbatim>\<open>habit_id\<close> no habit has.
\<close>

lemma SQLiteRepo_add_log_unreferenced:
  "SQLiteRepo_get_logs 7 (SQLiteRepo_add_log 7 100 5 SQLiteRepo_init) = [(100, 5)]"
  by (simp add: SQLiteRepo_get_logs_def SQLiteRepo_add_log_def SQLiteRepo_init_def
      next_rowid_def)

subsection \<open>Adding a log entry\<close>

text \<open>
  Claim C5 says that \<^verbatim>\<open>add_log\<close> with an id that identifies no habit fails and leaves
  the store unchanged. On a new \<^verbatim>\<open>MemoryRepo\<close> no habit has the id 7 and
  \<^verbatim>\<open>get_logs(7)\<close> is empty; \<^verbatim>\<open>add_log(7, ...)\<close> returns, and \<^verbatim>\<open>get_logs(7)\<close> then holds
  the entry.
\<close>

theorem MemoryRepo_add_log_unknown_counterexample:
  "mr_habits MemoryRepo_init 7 = None
   \<and> MemoryRepo_get_logs 7 MemoryRepo_init = []
   \<and> MemoryRepo_get_logs 7 (MemoryRepo_add_log 7 100 5 MemoryRepo_init) = [(100, 5)]"
  by (simp add: MemoryRepo_get_logs_rows MemoryRepo_add_log_def MemoryRepo_init_def)

text \<open>
  Claim C5 as amended. \<^verbatim>\<open>MemoryRepo.add_log\<close> accepts every id, whether a habit has it
  or not: the habit records and the next id are unchanged, and the entry is appended to
  the entries stored under the id (after none, when there were none), so that
  \<^verbatim>\<open>get_logs\<close> for the id returns the earlier entries followed by the new one.
\<close>

theorem MemoryRepo_add_log_accepts_any_id:
  "mr_habits (MemoryRepo_add_log habit_id d amount s) = mr_habits s
   \<and> mr_next_id (MemoryRepo_add_log habit_id d amount s) = mr_next_id s
   \<and> MemoryRepo_get_logs habit_id (MemoryRepo_add_log habit_id d amount s)
       = MemoryRepo_get_logs habit_id s @ [(d, amount)]"
  by (simp add: MemoryRepo_get_logs_rows MemoryRepo_add_log_def)

subsection \<open>Adding a habit\<close>

text \<open>
  Claim C6 says that \<^verbatim>\<open>add_habit\<close> fails on an empty name or on a kind outside the
  three of \<^verbatim>\<open>HabitFactory.TYPES\<close>, before the store is changed. Neither repository checks
  its arguments (the form of the application does: the button is disabled on a blank name
  and the kind comes from a fixed list). On a new repository of either class,
  \<^verbatim>\<open>add_habit("", "Yoga", 20)\<close> returns the id 1 and stores the record.
\<close>

theorem add_habit_unvalidated_counterexample:
  "MemoryRepo_add_habit [] ''Yoga'' 20 MemoryRepo_init =
     (1, \<lparr>mr_habits = [1 \<mapsto> \<lparr>h_id = 1, h_name = [], h_type = ''Yoga'', h_target = 20\<rparr>],
          mr_logs = [1 \<mapsto> []], mr_next_id = 2\<rparr>)
   \<and> SQLiteRepo_add_habit [] ''Yoga'' 20 SQLiteRepo_init =
     (1, \<lparr>habits_tbl = [\<lparr>h_id = 1, h_name = [], h_type = ''Yoga'', h_target = 20\<rparr>],
          habits_seq = 1, logs_tbl = [], logs_seq = 0\<rparr>)"
  by (simp add: MemoryRepo_add_habit_def MemoryRepo_init_def SQLiteRepo_add_habit_def
      SQLiteRepo_init_def next_rowid_def)

text \<open>
  Claim C6 as amended. \<^verbatim>\<open>add_habit\<close> does not reject an empty name or a kind outside
  the enumeration on either repository: with such arguments, as with any name and kind,
  it stores the record as given and returns an id that no stored habit has, on
  \<^verbatim>\<open>SQLiteRepo\<close> in every content of the tables and on \<^verbatim>\<open>MemoryRepo\<close> in every state
  that its methods produce from a new object.
\<close>

theorem add_habit_fresh_id:
  assumes "MemoryRepo_reachable s"
  shows "mr_habits s (fst (MemoryRepo_add_habit nm ty tgt s)) = None
       \<and> mr_habits (snd (MemoryRepo_add_habit nm ty tgt s)) (fst (MemoryRepo_add_habit nm ty tgt s))
           = Some \<lparr>h_id = fst (MemoryRepo_add_habit nm ty tgt s), h_name = nm, h_type = ty,
                   h_target = tgt\<rparr>
       \<and> fst (SQLiteRepo_add_habit nm ty tgt db) \<notin> h_id ` set (habits_tbl db)
       \<and> habits_tbl (snd (SQLiteRepo_add_habit nm ty tgt db))
           = habits_tbl db @ [\<lparr>h_id = fst (SQLiteRepo_add_habit nm ty tgt db), h_name = nm,
                                h_type = ty, h_target = tgt\<rparr>]"
proof -
  have mem_fresh: "mr_habits s (mr_next_id s) = None"
  proof (cases "mr_habits s (mr_next_id s)")
    case None
    then show ?thesis .
  next
    case (Some r)
    with assms have "mr_next_id s < mr_next_id s" by (rule MemoryRepo_ids_below_next)
    then show ?thesis by simp
  qed
  have sql_fresh: "next_rowid (habits_seq db) (map h_id (habits_tbl db)) \<notin> h_id ` set (habits_tbl db)"
    using next_rowid_fresh [of "habits_seq db" "map h_id (habits_tbl db)"] by simp
  from mem_fresh sql_fresh show ?thesis
    by (simp add: MemoryRepo_add_habit_def SQLiteRepo_add_habit_def Let_def)
qed

text \<open>
  The amended claim on repositories that have been used: two habits were added (ids 1 and
  2), an entry was logged for the first and the second habit was deleted, so that the
  habit 1 is stored and the id 2 has been given out before. \<^verbatim>\<open>add_habit("", "Yoga", 20)\<close>,
  with the empty name and a kind outside the enumeration, returns the id 3 on both
  repositories, an id that no stored habit has, and stores the record as given next to
  the habit 1.
\<close>

theorem add_habit_fresh_id_witness:
  "MemoryRepo_reachable
     (MemoryRepo_delete_habit 2 (MemoryRepo_add_log 1 100 30
        (snd (MemoryRepo_add_habit ''Read'' ''Study (minutes)'' 45
          (snd (MemoryRepo_add_habit ''Run'' ''Exercise (minutes)'' 30 MemoryRepo_init))))))
   \<and> mr_habits
       (MemoryRepo_delete_habit 2 (MemoryRepo_add_log 1 100 30
        (snd (MemoryRepo_add_habit ''Read'' ''Study (minutes)'' 45
          (snd (MemoryRepo_add_habit ''Run'' ''Exercise (minutes)'' 30 MemoryRepo_init)))))) 1
     = Some \<lparr>h_id = 1, h_name = ''Run'', h_type = ''Exercise (minutes)'', h_target = 30\<rparr>
   \<and> fst (MemoryRepo_add_habit [] ''Yoga'' 20
       (MemoryRepo_delete_habit 2 (MemoryRepo_add_log 1 100 30
        (snd (MemoryRepo_add_habit ''Read'' ''Study (minutes)'' 45
          (snd (MemoryRepo_add_habit ''Run'' ''Exercise (minutes)'' 30 MemoryRepo_init))))))) = 3
   \<and> mr_habits
       (MemoryRepo_delete_habit 2 (MemoryRepo_add_log 1 100 30
        (snd (MemoryRepo_add_habit ''Read'' ''Study (minutes)'' 45
          (snd (MemoryRepo_add_habit ''Run'' ''Exercise (minutes)'' 30 MemoryRepo_init)))))) 3
     = None
   \<and> mr_habits (snd (MemoryRepo_add_habit [] ''Yoga'' 20
       (MemoryRepo_delete_habit 2 (MemoryRepo_add_log 1 100 30
        (snd (MemoryRepo_add_habit ''Read'' ''Study (minutes)'' 45
          (snd (MemoryRepo_add_habit ''Run'' ''Exercise (minutes)'' 30 MemoryRepo_init)))))))) 3
     = Some \<lparr>h_id = 3, h_name = [], h_type = ''Yoga'', h_target = 20\<rparr>
   \<and> h_id ` set (habits_tbl
       (SQLiteRepo_delete_habit 2 (SQLiteRepo_add_log 1 100 30
        (snd (SQLiteRepo_add_habit ''Read'' ''Study (minutes)'' 45
          (snd (SQLiteRepo_add_habit ''Run'' ''Exercise (minutes)'' 30 SQLiteRepo_init))))))) = {1}
   \<and> fst (SQLiteRepo_add_habit [] ''Yoga'' 20
       (SQLiteRepo_delete_habit 2 (SQLiteRepo_add_log 1 100 30
        (snd (SQLiteRepo_add_habit ''Read'' ''Study (minutes)'' 45
          (snd (SQLiteRepo_add_habit ''Run'' ''Exercise (minutes)'' 30 SQLiteRepo_init))))))) = 3
   \<and> habits_tbl (snd (SQLiteRepo_add_habit [] ''Yoga'' 20
       (SQLiteRepo_delete_habit 2 (SQLiteRepo_add_log 1 100 30
        (snd (SQLiteRepo_add_habit ''Read'' ''Study (minutes)'' 45
          (snd (SQLiteRepo_add_habit ''Run'' ''Exercise (minutes)'' 30 SQLiteRepo_init))))))))
     = [\<lparr>h_id = 1, h_name = ''Run'', h_type = ''Exercise (minutes)'', h_target = 30\<rparr>,
        \<lparr>h_id = 3, h_name = [], h_type = ''Yoga'', h_target = 20\<rparr>]"
proof -
  let ?s = "MemoryRepo_delete_habit 2 (MemoryRepo_add_log 1 100 30
        (snd (MemoryRepo_add_habit ''Read'' ''Study (minutes)'' 45
          (snd (MemoryRepo_add_habit ''Run'' ''Exercise (minutes)'' 30 MemoryRepo_init)))))"
  let ?db = "SQLiteRepo_delete_habit 2 (SQLiteRepo_add_log 1 100 30
        (snd (SQLiteRepo_add_habit ''Read'' ''Study (minutes)'' 45
          (snd (SQLiteRepo_add_habit ''Run'' ''Exercise (minutes)'' 30 SQLiteRepo_init)))))"
  have reach: "MemoryRepo_reachable ?s"
    by (intro MemoryRepo_reachable.intros)
  have kept: "mr_habits ?s 1
      = Some \<lparr>h_id = 1, h_name = ''Run'', h_type = ''Exercise (minutes)'', h_target = 30\<rparr>"
    by (simp add: MemoryRepo_delete_habit_def MemoryRepo_add_log_def MemoryRepo_add_habit_def
        MemoryRepo_init_def Let_def)
  have m_id: "fst (MemoryRepo_add_habit [] ''Yoga'' 20 ?s) = 3"
    by (simp add: MemoryRepo_delete_habit_def MemoryRepo_add_log_def MemoryRepo_add_habit_def
        MemoryRepo_init_def Let_def)
  have tbl: "habits_tbl ?db
      = [\<lparr>h_id = 1, h_name = ''Run'', h_type = ''Exercise (minutes)'', h_target = 30\<rparr>]"
    by (simp add: SQLiteRepo_delete_habit_def SQLiteRepo_add_log_def SQLiteRepo_add_habit_def
        SQLiteRepo_init_def next_rowid_def Let_def)
  have q_id: "fst (SQLiteRepo_add_habit [] ''Yoga'' 20 ?db) = 3"
    by (simp add: SQLiteRepo_delete_habit_def SQLiteRepo_add_log_def SQLiteRepo_add_habit_def
        SQLiteRepo_init_def next_rowid_def Let_def)
  from add_habit_fresh_id [OF reach, of "[]" "''Yoga''" 20 ?db]
  have fresh: "mr_habits ?s 3 = None"
    and stored: "mr_habits (snd (MemoryRepo_add_habit [] ''Yoga'' 20 ?s)) 3
      = Some \<lparr>h_id = 3, h_name = [], h_type = ''Yoga'', h_target = 20\<rparr>"
    and appended: "habits_tbl (snd (SQLiteRepo_add_habit [] ''Yoga'' 20 ?db))
      = habits_tbl ?db @ [\<lparr>h_id = 3, h_name = [], h_type = ''Yoga'', h_target = 20\<rparr>]"
    unfolding m_id q_id by blast+
  have ids: "h_id ` set (habits_tbl ?db) = {1}"
    unfolding tbl by simp
  from appended have rows: "habits_tbl (snd (SQLiteRepo_add_habit [] ''Yoga'' 20 ?db))
     = [\<lparr>h_id = 1, h_name = ''Run'', h_type = ''Exercise (minutes)'', h_target = 30\<rparr>,
        \<lparr>h_id = 3, h_name = [], h_type = ''Yoga'', h_target = 20\<rparr>]"
    unfolding tbl by simp
  from reach kept m_id fresh stored ids q_id rows show ?thesis
    by blast
qed

subsection \<open>Reading the log entries\<close>

text \<open>
  Claim C7. \<^verbatim>\<open>get_logs\<close> is to return the entries in ascending order of date on both
  repositories. \<^verbatim>\<open>SQLiteRepo\<close> orders them (\<open>SQLiteRepo_get_logs_sorted\<close>);
  \<^verbatim>\<open>MemoryRepo\<close> returns them in the order of the calls. After the same calls, an entry
  for day 100 and then one for day 99, the two repositories return different frames, and
  the one of \<^verbatim>\<open>MemoryRepo\<close> is not sorted.
\<close>

theorem MemoryRepo_get_logs_insertion_order:
  "MemoryRepo_get_logs 1 (MemoryRepo_add_log 1 99 7 (MemoryRepo_add_log 1 100 5
       (snd (MemoryRepo_add_habit ''Run'' ''Exercise (minutes)'' 30 MemoryRepo_init))))
     = [(100, 5), (99, 7)]
   \<and> SQLiteRepo_get_logs 1 (SQLiteRepo_add_log 1 99 7 (SQLiteRepo_add_log 1 100 5
       (snd (SQLiteRepo_add_habit ''Run'' ''Exercise (minutes)'' 30 SQLiteRepo_init))))
     = [(99, 7), (100, 5)]"
  by (simp add: MemoryRepo_get_logs_rows MemoryRepo_add_log_def MemoryRepo_add_habit_def
      MemoryRepo_init_def SQLiteRepo_get_logs_def SQLiteRepo_add_log_def
      SQLiteRepo_add_habit_def SQLiteRepo_init_def next_rowid_def)

subsection \<open>Deleting a habit\<close>

text \<open>
  Claim C8 says that \<^verbatim>\<open>delete_habit\<close> of an id that no habit has changes no state. Both
  repositories delete the log entries stored under the id whether a habit has it or not:
  after \<^verbatim>\<open>add_log(7, ...)\<close> on a new repository no habit has the id 7, and
  \<^verbatim>\<open>delete_habit(7)\<close> changes the state.
\<close>

theorem delete_habit_orphan_counterexample:
  "mr_habits (MemoryRepo_add_log 7 100 5 MemoryRepo_init) 7 = None
   \<and> MemoryRepo_delete_habit 7 (MemoryRepo_add_log 7 100 5 MemoryRepo_init)
       \<noteq> MemoryRepo_add_log 7 100 5 MemoryRepo_init
   \<and> h_id ` set (habits_tbl (SQLiteRepo_add_log 7 100 5 SQLiteRepo_init)) = {}
   \<and> SQLiteRepo_delete_habit 7 (SQLiteRepo_add_log 7 100 5 SQLiteRepo_init)
       \<noteq> SQLiteRepo_add_log 7 100 5 SQLiteRepo_init"
proof -
  have a: "mr_habits (MemoryRepo_add_log 7 100 5 MemoryRepo_init) 7 = None"
    by (simp add: MemoryRepo_add_log_def MemoryRepo_init_def)
  have "mr_logs (MemoryRepo_delete_habit 7 (MemoryRepo_add_log 7 100 5 MemoryRepo_init)) 7
      \<noteq> mr_logs (MemoryRepo_add_log 7 100 5 MemoryRepo_init) 7"
    by (simp add: MemoryRepo_delete_habit_def MemoryRepo_add_log_def MemoryRepo_init_def)
  then have b: "MemoryRepo_delete_habit 7 (MemoryRepo_add_log 7 100 5 MemoryRepo_init)
       \<noteq> MemoryRepo_add_log 7 100 5 MemoryRepo_init"
    by metis
  have c: "h_id ` set (habits_tbl (SQLiteRepo_add_log 7 100 5 SQLiteRepo_init)) = {}"
    by (simp add: SQLiteRepo_add_log_def SQLiteRepo_init_def Let_def)
  have "logs_tbl (SQLiteRepo_delete_habit 7 (SQLiteRepo_add_log 7 100 5 SQLiteRepo_init))
      \<noteq> logs_tbl (SQLiteRepo_add_log 7 100 5 SQLiteRepo_init)"
    by (simp add: SQLiteRepo_delete_habit_def SQLiteRepo_add_log_def SQLiteRepo_init_def Let_def)
  then have d: "SQLiteRepo_delete_habit 7 (SQLiteRepo_add_log 7 100 5 SQLiteRepo_init)
       \<noteq> SQLiteRepo_add_log 7 100 5 SQLiteRepo_init"
    by metis
  from a b c d show ?thesis by simp
qed

lemma filter_neq_id:
  "\<forall>r \<in> set xs. f r \<noteq> i \<Longrightarrow> filter (\<lambda>r. f r \<noteq> i) xs = xs"
  by (induction xs) auto

text \<open>
  Claim C8 as amended. On both repositories, after \<^verbatim>\<open>delete_habit(i)\<close> the call
  \<^verbatim>\<open>get_logs(i)\<close> returns the empty frame, whatever was stored before. \<^verbatim>\<open>delete_habit\<close>
  has no failing branch, and for an id that no habit has it leaves the habit records
  and the id counter as they are; when in addition no log entry is stored under the id,
  it changes no state at all.
\<close>

theorem delete_habit_cascade:
  "MemoryRepo_get_logs i (MemoryRepo_delete_habit i s) = []
   \<and> SQLiteRepo_get_logs i (SQLiteRepo_delete_habit i db) = []
   \<and> (mr_habits s i = None \<longrightarrow>
         mr_habits (MemoryRepo_delete_habit i s) = mr_habits s
         \<and> mr_next_id (MemoryRepo_delete_habit i s) = mr_next_id s)
   \<and> (mr_habits s i = None \<and> mr_logs s i = None \<longrightarrow> MemoryRepo_delete_habit i s = s)
   \<and> (i \<notin> h_id ` set (habits_tbl db) \<longrightarrow>
         habits_tbl (SQLiteRepo_delete_habit i db) = habits_tbl db
         \<and> habits_seq (SQLiteRepo_delete_habit i db) = habits_seq db)
   \<and> (i \<notin> h_id ` set (habits_tbl db) \<and> i \<notin> l_habit_id ` set (logs_tbl db) \<longrightarrow>
         SQLiteRepo_delete_habit i db = db)"
proof -
  have m1: "MemoryRepo_get_logs i (MemoryRepo_delete_habit i s) = []"
    by (simp add: MemoryRepo_get_logs_rows MemoryRepo_delete_habit_def)
  have s1: "SQLiteRepo_get_logs i (SQLiteRepo_delete_habit i db) = []"
    by (simp add: SQLiteRepo_get_logs_def SQLiteRepo_delete_habit_def Let_def)
  have m2: "mr_habits s i = None \<longrightarrow>
         mr_habits (MemoryRepo_delete_habit i s) = mr_habits s
         \<and> mr_next_id (MemoryRepo_delete_habit i s) = mr_next_id s"
    by (auto simp: MemoryRepo_delete_habit_def)
  have m3: "mr_habits s i = None \<and> mr_logs s i = None \<longrightarrow> MemoryRepo_delete_habit i s = s"
  proof
    assume h: "mr_habits s i = None \<and> mr_logs s i = None"
    then have "(mr_habits s)(i := None) = mr_habits s" and "(mr_logs s)(i := None) = mr_logs s"
      by (simp_all add: fun_upd_idem)
    then show "MemoryRepo_delete_habit i s = s"
      by (simp add: MemoryRepo_delete_habit_def)
  qed
  have s2: "i \<notin> h_id ` set (habits_tbl db) \<longrightarrow>
         habits_tbl (SQLiteRepo_delete_habit i db) = habits_tbl db
         \<and> habits_seq (SQLiteRepo_delete_habit i db) = habits_seq db"
    by (auto simp: SQLiteRepo_delete_habit_def Let_def intro: filter_neq_id)
  have s3: "i \<notin> h_id ` set (habits_tbl db) \<and> i \<notin> l_habit_id ` set (logs_tbl db) \<longrightarrow>
         SQLiteRepo_delete_habit i db = db"
  proof
    assume h: "i \<notin> h_id ` set (habits_tbl db) \<and> i \<notin> l_habit_id ` set (logs_tbl db)"
    then have "filter (\<lambda>r. h_id r \<noteq> i) (habits_tbl db) = habits_tbl db"
      and "filter (\<lambda>r. l_habit_id r \<noteq> i) (logs_tbl db) = logs_tbl db"
      by (auto intro: filter_neq_id)
    then show "SQLiteRepo_delete_habit i db = db"
      by (simp add: SQLiteRepo_delete_habit_def Let_def)
  qed
  from m1 s1 m2 m3 s2 s3 show ?thesis by blast
qed

text \<open>
  The amended claim on repositories that hold one habit with one entry, for the id 7
  that nothing is stored under.
\<close>

theorem delete_habit_cascade_witness:
  "mr_habits (MemoryRepo_add_log 1 100 30
       (snd (MemoryRepo_add_habit ''Run'' ''Exercise (minutes)'' 30 MemoryRepo_init))) 7 = None
   \<and> mr_logs (MemoryRepo_add_log 1 100 30
       (snd (MemoryRepo_add_habit ''Run'' ''Exercise (minutes)'' 30 MemoryRepo_init))) 7 = None
   \<and> MemoryRepo_delete_habit 7 (MemoryRepo_add_log 1 100 30
       (snd (MemoryRepo_add_habit ''Run'' ''Exercise (minutes)'' 30 MemoryRepo_init)))
     = MemoryRepo_add_log 1 100 30
       (snd (MemoryRepo_add_habit ''Run'' ''Exercise (minutes)'' 30 MemoryRepo_init))
   \<and> 7 \<notin> h_id ` set (habits_tbl (SQLiteRepo_add_log 1 100 30
       (snd (SQLiteRepo_add_habit ''Run'' ''Exercise (minutes)'' 30 SQLiteRepo_init))))
   \<and> 7 \<notin> l_habit_id ` set (logs_tbl (SQLiteRepo_add_log 1 100 30
       (snd (SQLiteRepo_add_habit ''Run'' ''Exercise (minutes)'' 30 SQLiteRepo_init))))
   \<and> SQLiteRepo_delete_habit 7 (SQLiteRepo_add_log 1 100 30
       (snd (SQLiteRepo_add_habit ''Run'' ''Exercise (minutes)'' 30 SQLiteRepo_init)))
     = SQLiteRepo_add_log 1 100 30
       (snd (SQLiteRepo_add_habit ''Run'' ''Exercise (minutes)'' 30 SQLiteRepo_init))"
proof -
  let ?s = "MemoryRepo_add_log 1 100 30
       (snd (MemoryRepo_add_habit ''Run'' ''Exercise (minutes)'' 30 MemoryRepo_init))"
  let ?db = "SQLiteRepo_add_log 1 100 30
       (snd (SQLiteRepo_add_habit ''Run'' ''Exercise (minutes)'' 30 SQLiteRepo_init))"
  have m: "mr_habits ?s 7 = None" "mr_logs ?s 7 = None"
    by (simp_all add: MemoryRepo_add_log_def MemoryRepo_add_habit_def MemoryRepo_init_def)
  have q: "7 \<notin> h_id ` set (habits_tbl ?db)" "7 \<notin> l_habit_id ` set (logs_tbl ?db)"
    by (simp_all add: SQLiteRepo_add_log_def SQLiteRepo_add_habit_def SQLiteRepo_init_def
        next_rowid_def Let_def)
  from delete_habit_cascade [of 7 ?s ?db] m q
  have "MemoryRepo_delete_habit 7 ?s = ?s" and "SQLiteRepo_delete_habit 7 ?db = ?db"
    by blast+
  with m q show ?thesis by blast
qed

subsection \<open>A new habit has no log entries\<close>

text \<open>
  Claim C9. In every state of \<^verbatim>\<open>MemoryRepo\<close>, right after \<^verbatim>\<open>add_habit\<close> has returned an
  id, \<^verbatim>\<open>get_logs\<close> for that id returns the empty frame, whatever \<^verbatim>\<open>_logs\<close> held under it
  before.
\<close>

theorem MemoryRepo_add_habit_empty_logs:
  "MemoryRepo_get_logs (fst (MemoryRepo_add_habit nm ty tgt s))
     (snd (MemoryRepo_add_habit nm ty tgt s)) = []"
  by (simp add: MemoryRepo_get_logs_rows MemoryRepo_add_habit_def Let_def)

text \<open>
  The case the claim names: an entry added under the id 1 while no habit had it is gone
  once \<^verbatim>\<open>add_habit\<close> has assigned the id 1.
\<close>

lemma MemoryRepo_add_habit_overwrites_orphan:
  "MemoryRepo_get_logs 1 (MemoryRepo_add_log 1 100 5 MemoryRepo_init) = [(100, 5)]
   \<and> fst (MemoryRepo_add_habit ''Run'' ''Exercise (minutes)'' 30
        (MemoryRepo_add_log 1 100 5 MemoryRepo_init)) = 1
   \<and> MemoryRepo_get_logs 1 (snd (MemoryRepo_add_habit ''Run'' ''Exercise (minutes)'' 30
        (MemoryRepo_add_log 1 100 5 MemoryRepo_init))) = []"
  by (simp add: MemoryRepo_get_logs_rows MemoryRepo_add_habit_def MemoryRepo_add_log_def
      MemoryRepo_init_def Let_def)

subsection \<open>Deleting a habit leaves the others alone\<close>

text \<open>
  Deleting the rows of one id keeps the rows of every other id.
\<close>

lemma filter_other_id:
  "a \<noteq> b \<Longrightarrow> filter (\<lambda>r. f r \<noteq> a \<and> f r = b) xs = filter (\<lambda>r. f r = b) xs"
  by (rule filter_cong) auto

text \<open>
  Claim C10. For two different ids, \<^verbatim>\<open>delete_habit\<close> of the first leaves the habit
  record of the second and the result of \<^verbatim>\<open>get_logs\<close> for the second unchanged, on both
  repositories.
\<close>

theorem delete_habit_frame:
  assumes "id1 \<noteq> id2"
  shows "mr_habits (MemoryRepo_delete_habit id1 s) id2 = mr_habits s id2
     \<and> MemoryRepo_get_logs id2 (MemoryRepo_delete_habit id1 s) = MemoryRepo_get_logs id2 s
     \<and> filter (\<lambda>r. h_id r = id2) (habits_tbl (SQLiteRepo_delete_habit id1 db))
         = filter (\<lambda>r. h_id r = id2) (habits_tbl db)
     \<and> SQLiteRepo_get_logs id2 (SQLiteRepo_delete_habit id1 db) = SQLiteRepo_get_logs id2 db"
proof -
  have m: "mr_habits (MemoryRepo_delete_habit id1 s) id2 = mr_habits s id2"
    "MemoryRepo_get_logs id2 (MemoryRepo_delete_habit id1 s) = MemoryRepo_get_logs id2 s"
    using assms by (simp_all add: MemoryRepo_get_logs_rows MemoryRepo_delete_habit_def)
  have q: "filter (\<lambda>r. h_id r = id2) (habits_tbl (SQLiteRepo_delete_habit id1 db))
         = filter (\<lambda>r. h_id r = id2) (habits_tbl db)"
    "SQLiteRepo_get_logs id2 (SQLiteRepo_delete_habit id1 db) = SQLiteRepo_get_logs id2 db"
    using assms
    by (simp_all add: SQLiteRepo_get_logs_def SQLiteRepo_delete_habit_def Let_def
        filter_other_id)
  from m q show ?thesis by simp
qed

text \<open>
  Two habits with one entry each; deleting the first leaves the second and its entry.
\<close>

theorem delete_habit_frame_witness:
  "(1::int) \<noteq> 2
   \<and> mr_habits (MemoryRepo_delete_habit 1 (MemoryRepo_add_log 2 100 45 (MemoryRepo_add_log 1 100 30
        (snd (MemoryRepo_add_habit ''Read'' ''Study (minutes)'' 45
          (snd (MemoryRepo_add_habit ''Run'' ''Exercise (minutes)'' 30 MemoryRepo_init))))))) 2
     = Some \<lparr>h_id = 2, h_name = ''Read'', h_type = ''Study (minutes)'', h_target = 45\<rparr>
   \<and> MemoryRepo_get_logs 2 (MemoryRepo_delete_habit 1 (MemoryRepo_add_log 2 100 45
        (MemoryRepo_add_log 1 100 30
        (snd (MemoryRepo_add_habit ''Read'' ''Study (minutes)'' 45
          (snd (MemoryRepo_add_habit ''Run'' ''Exercise (minutes)'' 30 MemoryRepo_init)))))))
     = [(100, 45)]
   \<and> SQLiteRepo_get_logs 2 (SQLiteRepo_delete_habit 1 (SQLiteRepo_add_log 2 100 45
        (SQLiteRepo_add_log 1 100 30
        (snd (SQLiteRepo_add_habit ''Read'' ''Study (minutes)'' 45
          (snd (SQLiteRepo_add_habit ''Run'' ''Exercise (minutes)'' 30 SQLiteRepo_init)))))))
     = [(100, 45)]"
proof -
  let ?s = "MemoryRepo_add_log 2 100 45 (MemoryRepo_add_log 1 100 30
        (snd (MemoryRepo_add_habit ''Read'' ''Study (minutes)'' 45
          (snd (MemoryRepo_add_habit ''Run'' ''Exercise (minutes)'' 30 MemoryRepo_init)))))"
  let ?db = "SQLiteRepo_add_log 2 100 45 (SQLiteRepo_add_log 1 100 30
        (snd (SQLiteRepo_add_habit ''Read'' ''Study (minutes)'' 45
          (snd (SQLiteRepo_add_habit ''Run'' ''Exercise (minutes)'' 30 SQLiteRepo_init)))))"
  have ne: "(1::int) \<noteq> 2" by simp
  have before: "mr_habits ?s 2
      = Some \<lparr>h_id = 2, h_name = ''Read'', h_type = ''Study (minutes)'', h_target = 45\<rparr>"
    "MemoryRepo_get_logs 2 ?s = [(100, 45)]"
    by (simp_all add: MemoryRepo_get_logs_rows MemoryRepo_add_log_def MemoryRepo_add_habit_def
        MemoryRepo_init_def Let_def)
  have before_sql: "SQLiteRepo_get_logs 2 ?db = [(100, 45)]"
    by (simp add: SQLiteRepo_get_logs_def SQLiteRepo_add_log_def SQLiteRepo_add_habit_def
        SQLiteRepo_init_def next_rowid_def Let_def)
  from delete_habit_frame [OF ne, of ?s ?db] before before_sql ne
  show ?thesis by simp
qed

end
